theory Spec2Isabelle
  imports Main "HOL-Library.Multiset"
begin

section \<open>Data model\<close>

text \<open>
  One row of the table \<^verbatim>\<open>todos\<close> that \<^verbatim>\<open>initDB\<close> creates:
  \<^verbatim>\<open>id SERIAL PRIMARY KEY, title VARCHAR(255) NOT NULL, description TEXT,
  completed BOOLEAN DEFAULT FALSE, file_url VARCHAR(500), file_name VARCHAR(255),
  created_at / updated_at TIMESTAMP DEFAULT CURRENT_TIMESTAMP\<close>.
  The column \<^verbatim>\<open>id\<close> is called \<open>todo_id\<close> here. A nullable column is an \<open>option\<close>;
  \<open>title\<close> is \<^verbatim>\<open>NOT NULL\<close>, so a stored title is a string, possibly the empty one.
  Timestamps are points of a discrete clock. A string is a list of characters and its
  length is what the width of a \<^verbatim>\<open>VARCHAR\<close> column bounds.
\<close>

record todo =
  todo_id :: int
  title :: string
  description :: "string option"
  completed :: "bool option"
  file_url :: "string option"
  file_name :: "string option"
  created_at :: nat
  updated_at :: nat

text \<open>
  The object multer leaves in \<^verbatim>\<open>req.file\<close>. The buffer is represented by its length
  in bytes.
\<close>

record multer_file =
  originalname :: string
  mimetype :: string
  file_size :: nat

text \<open>
  A \<^verbatim>\<open>POST /api/todos\<close> request: the multipart text fields \<^verbatim>\<open>req.body.title\<close> and
  \<^verbatim>\<open>req.body.description\<close> (\<open>None\<close> when the field is missing) and the optional file part.
\<close>

record create_req =
  body_title :: "string option"
  body_description :: "string option"
  req_file :: "multer_file option"

text \<open>
  The JSON body of \<^verbatim>\<open>PUT /api/todos/:id\<close>: \<open>None\<close> is a field that is omitted (or null),
  which the database driver sends as \<^verbatim>\<open>NULL\<close>.
\<close>

record update_req =
  put_title :: "string option"
  put_description :: "string option"
  put_completed :: "bool option"

datatype js_error =
    MulterError string string
  | Error string
  | TypeError string
  | DatabaseError string

text \<open>
  A call to the Spaces client: \<^verbatim>\<open>s3.upload({Bucket, Key, Body, ContentType, ACL})\<close> or
  \<^verbatim>\<open>s3.deleteObject({Bucket, Key})\<close>.
\<close>

datatype s3_call =
    Upload "string option" string nat string string
  | DeleteObject "string option" string

text \<open>
  What a request reads from outside the process: the two clocks, the bucket names of
  the environment, and the outcome of a call to Spaces (\<open>Inr\<close> the \<^verbatim>\<open>Location\<close> of
  the uploaded object, or the error the promise rejects with).
\<close>

record env =
  date_now :: nat
  current_timestamp :: nat
  SPACES_BUCKET :: "string option"
  DO_SPACES_BUCKET :: "string option"
  s3_upload :: "s3_call \<Rightarrow> js_error + string"
  s3_deleteObject :: "s3_call \<Rightarrow> js_error option"

text \<open>
  The state outside the process: the rows of the table in storage order, the last value
  of the sequence behind \<^verbatim>\<open>SERIAL\<close>, and the calls made to Spaces so far, oldest first.
\<close>

record state =
  todos :: "todo list"
  todos_id_seq :: int
  s3_log :: "s3_call list"

datatype json =
    Row todo
  | Rows "todo list"
  | Message string
  | ErrorBody string

type_synonym response = "nat \<times> json"

section \<open>Strings of the JavaScript runtime\<close>

definition digit_char :: "nat \<Rightarrow> char" where
  "digit_char d = ''0123456789'' ! d"

text \<open>The decimal text of \<^verbatim>\<open>Date.now()\<close> inside a template literal.\<close>

function string_of_nat :: "nat \<Rightarrow> string" where
  "string_of_nat n =
     (if n < 10 then [digit_char n]
      else string_of_nat (n div 10) @ [digit_char (n mod 10)])"
  by pat_completeness auto
termination
  by (relation "measure (\<lambda>n. n)") auto

declare string_of_nat.simps [simp del]

text \<open>\<^verbatim>\<open>s.split(c)\<close> for a one-character separator.\<close>

fun split_on :: "char \<Rightarrow> string \<Rightarrow> string list" where
  "split_on c [] = [[]]"
| "split_on c (x # xs) =
     (if x = c then [] # split_on c xs
      else (case split_on c xs of
              [] \<Rightarrow> [[x]]
            | w # ws \<Rightarrow> (x # w) # ws))"

text \<open>\<^verbatim>\<open>parts.join(sep)\<close>.\<close>

fun join :: "string \<Rightarrow> string list \<Rightarrow> string" where
  "join sep [] = []"
| "join sep [x] = x"
| "join sep (x # y # ys) = x @ sep @ join sep (y # ys)"

text \<open>\<^verbatim>\<open>parts.slice(-2)\<close>: the last two elements, or all of them when there are fewer.\<close>

definition slice_last2 :: "'a list \<Rightarrow> 'a list" where
  "slice_last2 xs = drop (length xs - 2) xs"

text \<open>\<^verbatim>\<open>parts.pop()\<close> on the result of a split, which is never empty.\<close>

definition pop :: "string list \<Rightarrow> string" where
  "pop xs = (case rev xs of [] \<Rightarrow> [] | x # _ \<Rightarrow> x)"

text \<open>The truth value JavaScript gives a nullable string: null and the empty string are falsy.\<close>

definition truthy :: "string option \<Rightarrow> bool" where
  "truthy v = (case v of None \<Rightarrow> False | Some s \<Rightarrow> s \<noteq> [])"

fun starts_with :: "string \<Rightarrow> string \<Rightarrow> bool" where
  "starts_with s [] = True"
| "starts_with [] (y # ys) = False"
| "starts_with (x # xs) (y # ys) = (x = y \<and> starts_with xs ys)"

text \<open>Whether \<open>w\<close> occurs in \<open>s\<close>: what an unanchored regular expression of plain letters tests.\<close>

fun contains :: "string \<Rightarrow> string \<Rightarrow> bool" where
  "contains [] w = (w = [])"
| "contains (x # xs) w = (starts_with (x # xs) w \<or> contains xs w)"

definition lower_char :: "char \<Rightarrow> char" where
  "lower_char c =
     (case map_of (zip ''ABCDEFGHIJKLMNOPQRSTUVWXYZ'' ''abcdefghijklmnopqrstuvwxyz'') c of
        None \<Rightarrow> c
      | Some l \<Rightarrow> l)"

text \<open>\<^verbatim>\<open>s.toLowerCase()\<close> on the ASCII letters.\<close>

definition toLowerCase :: "string \<Rightarrow> string" where
  "toLowerCase s = map lower_char s"

text \<open>
  \<^verbatim>\<open>path.extname\<close> of Node (POSIX): trailing slashes are ignored, the last path component
  is taken, and the extension runs from its last dot to its end; it is empty when there is
  no dot, when the last dot is the first character of the component, and for the
  component \<^verbatim>\<open>..\<close>.
\<close>

definition basename_part :: "string \<Rightarrow> string" where
  "basename_part p =
     rev (takeWhile (\<lambda>c. c \<noteq> CHR ''/'') (dropWhile (\<lambda>c. c = CHR ''/'') (rev p)))"

definition extname :: "string \<Rightarrow> string" where
  "extname p =
     (let b = basename_part p;
          ext = rev (takeWhile (\<lambda>c. c \<noteq> CHR ''.'') (rev b));
          stem = take (length b - length ext - 1) b
      in if CHR ''.'' \<notin> set b then []
         else if stem = [] then []
         else if b = ''..'' then []
         else CHR ''.'' # ext)"

section \<open>The table\<close>

text \<open>
  The values of the column type \<^verbatim>\<open>INTEGER\<close> behind \<^verbatim>\<open>SERIAL\<close>: a parameter compared
  with \<^verbatim>\<open>id\<close> is read as such a value when the statement is bound, and a number outside
  the range fails the statement.
\<close>

definition int4 :: "int \<Rightarrow> bool" where
  "int4 i = (- 2147483648 \<le> i \<and> i \<le> 2147483647)"

text \<open>
  Whether a parameter fits a column \<^verbatim>\<open>VARCHAR(n)\<close>: null does, and so does a string of at
  most \<open>n\<close> characters. A longer one fails the statement. (Where the excess characters
  are all spaces the database stores the value cut to the width instead; the model treats
  that value like any other that is too long.)
\<close>

definition fits :: "nat \<Rightarrow> string option \<Rightarrow> bool" where
  "fits n v = (case v of None \<Rightarrow> True | Some s \<Rightarrow> length s \<le> n)"

text \<open>
  \<^verbatim>\<open>INSERT INTO todos (title, description, file_url, file_name) VALUES ($1, $2, $3, $4)
  RETURNING *\<close>. The parameters are coerced to their columns first: a title or file name
  over 255 characters or a URL over 500 fails the statement. Then the defaults are filled
  in (the sequence advances, unless it has reached the largest \<^verbatim>\<open>INTEGER\<close>; both
  timestamps are the current one; \<open>completed\<close> is false). A null title then violates
  \<^verbatim>\<open>NOT NULL\<close>. A failed statement stores no row.
\<close>

definition db_insert ::
  "nat \<Rightarrow> string option \<Rightarrow> string option \<Rightarrow> string option \<Rightarrow> string option \<Rightarrow> state
   \<Rightarrow> (js_error + todo) \<times> state" where
  "db_insert ts t d fu fn st =
     (if fits 255 t \<and> fits 500 fu \<and> fits 255 fn then
        (let i = todos_id_seq st + 1
         in if i \<le> 2147483647 then
              (let st1 = st\<lparr>todos_id_seq := i\<rparr>
               in case t of
                    None \<Rightarrow>
                      (Inl (DatabaseError ''null value in column title violates not-null constraint''), st1)
                  | Some tt \<Rightarrow>
                      (let row = \<lparr>todo_id = i, title = tt, description = d, completed = Some False,
                                  file_url = fu, file_name = fn, created_at = ts, updated_at = ts\<rparr>
                       in (Inr row, st1\<lparr>todos := todos st1 @ [row]\<rparr>)))
            else (Inl (DatabaseError ''nextval: reached maximum value of sequence''), st))
      else (Inl (DatabaseError ''value too long for type character varying''), st))"

text \<open>The assignment list of the \<^verbatim>\<open>UPDATE\<close> statement, applied to one row.\<close>

definition set_columns :: "nat \<Rightarrow> string \<Rightarrow> string option \<Rightarrow> bool option \<Rightarrow> todo \<Rightarrow> todo" where
  "set_columns ts tt d c r = r\<lparr>title := tt, description := d, completed := c, updated_at := ts\<rparr>"

text \<open>
  \<^verbatim>\<open>UPDATE todos SET title = $1, description = $2, completed = $3,
  updated_at = CURRENT_TIMESTAMP WHERE id = $4 RETURNING *\<close>. The result is the list of the
  rows as updated. The parameters are read and coerced when the statement is bound, before
  any row is looked at: an id outside \<^verbatim>\<open>INTEGER\<close> or a title over 255 characters fails the
  statement whatever the table holds. \<^verbatim>\<open>NOT NULL\<close> is checked on each row that is written,
  so a null title fails only when some row has the id.
\<close>

definition db_update ::
  "nat \<Rightarrow> string option \<Rightarrow> string option \<Rightarrow> bool option \<Rightarrow> int \<Rightarrow> state
   \<Rightarrow> js_error + (todo list \<times> state)" where
  "db_update ts t d c i st =
     (if int4 i then
        (if fits 255 t then
           (if list_ex (\<lambda>r. todo_id r = i) (todos st) then
              (case t of
                 None \<Rightarrow> Inl (DatabaseError ''null value in column title violates not-null constraint'')
               | Some tt \<Rightarrow>
                   (let rows = map (\<lambda>r. if todo_id r = i then set_columns ts tt d c r else r) (todos st)
                    in Inr (filter (\<lambda>r. todo_id r = i) rows, st\<lparr>todos := rows\<rparr>)))
            else Inr ([], st))
         else Inl (DatabaseError ''value too long for type character varying''))
      else Inl (DatabaseError ''value is out of range for type integer''))"

text \<open>\<^verbatim>\<open>SELECT * FROM todos WHERE id = $1\<close>.\<close>

definition db_select_by_id :: "int \<Rightarrow> state \<Rightarrow> js_error + todo list" where
  "db_select_by_id i st =
     (if int4 i then Inr (filter (\<lambda>r. todo_id r = i) (todos st))
      else Inl (DatabaseError ''value is out of range for type integer''))"

text \<open>\<^verbatim>\<open>DELETE FROM todos WHERE id = $1\<close>.\<close>

definition db_delete :: "int \<Rightarrow> state \<Rightarrow> js_error + state" where
  "db_delete i st =
     (if int4 i then Inr (st\<lparr>todos := filter (\<lambda>r. todo_id r \<noteq> i) (todos st)\<rparr>)
      else Inl (DatabaseError ''value is out of range for type integer''))"

text \<open>
  \<^verbatim>\<open>SELECT * FROM todos ORDER BY created_at DESC\<close>: a stable sort on the negated
  timestamp. (SQL leaves the order of rows with equal keys open; the model keeps their
  storage order.)
\<close>

definition db_select_all :: "state \<Rightarrow> todo list" where
  "db_select_all st = sort_key (\<lambda>r. - int (created_at r)) (todos st)"

section \<open>The upload middleware of server.js\<close>

text \<open>\<^verbatim>\<open>/jpeg|jpg|png|gif|pdf|txt/.test(s)\<close>.\<close>

definition allowedTypes_test :: "string \<Rightarrow> bool" where
  "allowedTypes_test s =
     list_ex (contains s) [''jpeg'', ''jpg'', ''png'', ''gif'', ''pdf'', ''txt'']"

text \<open>The \<^verbatim>\<open>fileFilter\<close> callback: true when it accepts the file.\<close>

definition fileFilter :: "multer_file \<Rightarrow> bool" where
  "fileFilter f =
     (let extname_ok = allowedTypes_test (toLowerCase (extname (originalname f)));
          mimetype_ok = allowedTypes_test (mimetype f)
      in mimetype_ok \<and> extname_ok)"

definition fileSize_limit :: nat where
  "fileSize_limit = 5 * 1024 * 1024"

text \<open>
  \<^verbatim>\<open>upload.single('file')\<close> with the options of server.js. multer calls the filter when the
  file part starts and hands its error to \<^verbatim>\<open>next\<close>; while it reads an accepted file it
  raises \<^verbatim>\<open>MulterError\<close> with code \<^verbatim>\<open>LIMIT_FILE_SIZE\<close> once the part is longer than the limit.
  Otherwise the route handler runs on the request.
\<close>

definition upload_single :: "create_req \<Rightarrow> js_error + create_req" where
  "upload_single req =
     (case req_file req of
        None \<Rightarrow> Inr req
      | Some f \<Rightarrow>
          if fileFilter f then
            (if fileSize_limit < file_size f
             then Inl (MulterError ''LIMIT_FILE_SIZE'' ''File too large'')
             else Inr req)
          else Inl (Error ''Only images, PDFs, and text files are allowed''))"

definition error_message :: "js_error \<Rightarrow> string" where
  "error_message e =
     (case e of MulterError c m \<Rightarrow> m | Error m \<Rightarrow> m | TypeError m \<Rightarrow> m | DatabaseError m \<Rightarrow> m)"

text \<open>The error handling middleware of server.js.\<close>

definition error_middleware :: "js_error \<Rightarrow> response" where
  "error_middleware e =
     (case e of
        MulterError c m \<Rightarrow>
          if c = ''LIMIT_FILE_SIZE'' then (400, ErrorBody ''File too large'')
          else (500, ErrorBody (error_message e))
      | Error m \<Rightarrow> (500, ErrorBody (error_message e))
      | TypeError m \<Rightarrow> (500, ErrorBody (error_message e))
      | DatabaseError m \<Rightarrow> (500, ErrorBody (error_message e)))"

section \<open>The route handlers of server.js\<close>

text \<open>\<^verbatim>\<open>app.get('/api/todos')\<close>.\<close>

definition get_todos :: "state \<Rightarrow> response \<times> state" where
  "get_todos st = ((200, Rows (db_select_all st)), st)"

text \<open>
  An assignment to a name that the enclosing block binds with \<^verbatim>\<open>const\<close>: the runtime
  throws a TypeError and nothing is assigned.
\<close>

definition assign_const :: "string \<Rightarrow> js_error + unit" where
  "assign_const v = Inl (TypeError ''Assignment to constant variable.'')"

text \<open>
  \<^verbatim>\<open>app.post('/api/todos')\<close>, the handler behind the upload middleware. With a file, the
  block declares \<^verbatim>\<open>const fileName\<close> for the key, awaits the upload, sets \<^verbatim>\<open>fileUrl\<close>, and then
  assigns \<^verbatim>\<open>fileName = req.file.originalname\<close>. Inside the block that name is the constant,
  not the outer \<^verbatim>\<open>let fileName = null\<close>, which nothing ever changes. The handler's \<^verbatim>\<open>catch\<close>
  answers 500 for whatever is thrown: a rejected upload, the assignment, a failed statement.
\<close>

definition post_todos :: "env \<Rightarrow> create_req \<Rightarrow> state \<Rightarrow> response \<times> state" where
  "post_todos e req st =
     (case req_file req of
        Some f \<Rightarrow>
          (let fileName = string_of_nat (date_now e) @ ''-'' @ originalname f;
               uploadParams = Upload (SPACES_BUCKET e) (''uploads/'' @ fileName) (file_size f)
                                (mimetype f) ''public-read'';
               st1 = st\<lparr>s3_log := s3_log st @ [uploadParams]\<rparr>
           in case s3_upload e uploadParams of
                Inl err \<Rightarrow> ((500, ErrorBody ''Failed to create todo''), st1)
              | Inr location \<Rightarrow>
                  (case assign_const (originalname f) of
                     Inl err \<Rightarrow> ((500, ErrorBody ''Failed to create todo''), st1)
                   | Inr u \<Rightarrow>
                       (case db_insert (current_timestamp e) (body_title req) (body_description req)
                               (Some location) None st1 of
                          (Inl err, st2) \<Rightarrow> ((500, ErrorBody ''Failed to create todo''), st2)
                        | (Inr row, st2) \<Rightarrow> ((201, Row row), st2))))
      | None \<Rightarrow>
          (case db_insert (current_timestamp e) (body_title req) (body_description req) None None st of
             (Inl err, st2) \<Rightarrow> ((500, ErrorBody ''Failed to create todo''), st2)
           | (Inr row, st2) \<Rightarrow> ((201, Row row), st2)))"

text \<open>The whole route \<^verbatim>\<open>POST /api/todos\<close>: middleware, then handler or error middleware.\<close>

definition post_todos_route :: "env \<Rightarrow> create_req \<Rightarrow> state \<Rightarrow> response \<times> state" where
  "post_todos_route e req st =
     (case upload_single req of
        Inl err \<Rightarrow> (error_middleware err, st)
      | Inr req' \<Rightarrow> post_todos e req' st)"

text \<open>
  \<^verbatim>\<open>app.put('/api/todos/:id')\<close>. Here and in the delete handler the route parameter is the
  integer it spells, of any size; a failed statement is caught and answered 500.
\<close>

definition put_todo :: "env \<Rightarrow> int \<Rightarrow> update_req \<Rightarrow> state \<Rightarrow> response \<times> state" where
  "put_todo e i b st =
     (case db_update (current_timestamp e) (put_title b) (put_description b) (put_completed b) i st of
        Inl err \<Rightarrow> ((500, ErrorBody ''Failed to update todo''), st)
      | Inr (rows, st') \<Rightarrow>
          (case rows of
             [] \<Rightarrow> ((404, ErrorBody ''Todo not found''), st')
           | r # rs \<Rightarrow> ((200, Row r), st')))"

text \<open>
  \<^verbatim>\<open>app.delete('/api/todos/:id')\<close>. The call to \<^verbatim>\<open>s3.deleteObject\<close> is awaited inside the
  handler's only \<^verbatim>\<open>try\<close>, so its rejection goes to the \<^verbatim>\<open>catch\<close> that answers 500, before
  the \<^verbatim>\<open>DELETE\<close> statement.
\<close>

definition delete_todo :: "env \<Rightarrow> int \<Rightarrow> state \<Rightarrow> response \<times> state" where
  "delete_todo e i st =
     (case db_select_by_id i st of
        Inl err \<Rightarrow> ((500, ErrorBody ''Failed to delete todo''), st)
      | Inr [] \<Rightarrow> ((404, ErrorBody ''Todo not found''), st)
      | Inr (r # rs) \<Rightarrow>
          if truthy (file_url r) then
            (let fileKey = pop (split_on CHR ''/'' (the (file_url r)));
                 params = DeleteObject (SPACES_BUCKET e) (''uploads/'' @ fileKey);
                 st1 = st\<lparr>s3_log := s3_log st @ [params]\<rparr>
             in case s3_deleteObject e params of
                  Some err \<Rightarrow> ((500, ErrorBody ''Failed to delete todo''), st1)
                | None \<Rightarrow>
                    (case db_delete i st1 of
                       Inl err \<Rightarrow> ((500, ErrorBody ''Failed to delete todo''), st1)
                     | Inr st2 \<Rightarrow> ((200, Message ''Todo deleted successfully''), st2)))
          else
            (case db_delete i st of
               Inl err \<Rightarrow> ((500, ErrorBody ''Failed to delete todo''), st)
             | Inr st2 \<Rightarrow> ((200, Message ''Todo deleted successfully''), st2)))"

section \<open>The handlers of the other copies of the server\<close>

text \<open>
  The first unnamed copy of the server keeps two flags, set at start-up from the
  environment: whether a database pool and whether a Spaces client were created.
\<close>

record config =
  dbConfigured :: bool
  spacesConfigured :: bool

text \<open>
  \<^verbatim>\<open>app.post('/api/todos')\<close> of that copy: the 503 gate, the title check, the upload in a
  \<^verbatim>\<open>try\<close> of its own whose \<^verbatim>\<open>catch\<close> only logs ("Continue without file if upload fails"),
  and the \<^verbatim>\<open>INSERT\<close>.
\<close>

definition post_todos_p0 :: "config \<Rightarrow> env \<Rightarrow> create_req \<Rightarrow> state \<Rightarrow> response \<times> state" where
  "post_todos_p0 cfg e req st =
     (if dbConfigured cfg then
        (if truthy (body_title req) then
           (let (fileUrl, fileName, st1) =
              (case req_file req of
                 None \<Rightarrow> (None, None, st)
               | Some f \<Rightarrow>
                   if spacesConfigured cfg then
                     (let uniqueFileName = string_of_nat (date_now e) @ ''-'' @ originalname f;
                          uploadParams = Upload (SPACES_BUCKET e) (''uploads/'' @ uniqueFileName)
                                           (file_size f) (mimetype f) ''public-read'';
                          st1 = st\<lparr>s3_log := s3_log st @ [uploadParams]\<rparr>
                      in case s3_upload e uploadParams of
                           Inl uploadError \<Rightarrow> (None, None, st1)
                         | Inr location \<Rightarrow> (Some location, Some (originalname f), st1))
                   else (None, None, st))
            in case db_insert (current_timestamp e) (body_title req) (body_description req)
                    fileUrl fileName st1 of
                 (Inl err, st2) \<Rightarrow>
                   ((500, ErrorBody (''Failed to create todo: '' @ error_message err)), st2)
               | (Inr row, st2) \<Rightarrow> ((201, Row row), st2))
         else ((400, ErrorBody ''Title is required''), st))
      else ((503, ErrorBody ''Database not configured. Please set DATABASE_URL environment variable.''), st))"

text \<open>
  \<^verbatim>\<open>app.delete('/api/todos/:id')\<close> of that copy (the third copy has the same text). The
  call to \<^verbatim>\<open>s3.deleteObject\<close> sits in a \<^verbatim>\<open>try\<close> of its own whose \<^verbatim>\<open>catch\<close> only logs
  ("Continue with todo deletion even if file deletion fails"). Without a pool the first
  query throws inside the outer \<^verbatim>\<open>try\<close>; without a Spaces client the call throws before
  anything is sent.
\<close>

definition delete_todo_p0 :: "config \<Rightarrow> env \<Rightarrow> int \<Rightarrow> state \<Rightarrow> response \<times> state" where
  "delete_todo_p0 cfg e i st =
     (if dbConfigured cfg then
        (case db_select_by_id i st of
           Inl err \<Rightarrow> ((500, ErrorBody ''Failed to delete todo''), st)
         | Inr [] \<Rightarrow> ((404, ErrorBody ''Todo not found''), st)
         | Inr (todo # rs) \<Rightarrow>
             (let st1 =
                (if truthy (file_url todo) then
                   (let fileKey = join ''/'' (slice_last2 (split_on CHR ''/'' (the (file_url todo))));
                        params = DeleteObject (DO_SPACES_BUCKET e) fileKey
                    in if spacesConfigured cfg then
                         (case s3_deleteObject e params of
                            Some deleteError \<Rightarrow> st\<lparr>s3_log := s3_log st @ [params]\<rparr>
                          | None \<Rightarrow> st\<lparr>s3_log := s3_log st @ [params]\<rparr>)
                       else st)
                 else st)
              in case db_delete i st1 of
                   Inl err \<Rightarrow> ((500, ErrorBody ''Failed to delete todo''), st1)
                 | Inr st2 \<Rightarrow> ((200, Message ''Todo deleted successfully''), st2)))
      else ((500, ErrorBody ''Failed to delete todo''), st))"

text \<open>
  \<^verbatim>\<open>app.post('/api/todos')\<close> of the second unnamed copy: the key is built in
  \<^verbatim>\<open>uploadFileName\<close>, and that key is what \<^verbatim>\<open>fileName\<close> is set to.
\<close>

definition post_todos_p1 :: "env \<Rightarrow> create_req \<Rightarrow> state \<Rightarrow> response \<times> state" where
  "post_todos_p1 e req st =
     (let (r, st1) =
        (case req_file req of
           None \<Rightarrow> (Inr (None, None), st)
         | Some f \<Rightarrow>
             (let uploadFileName = string_of_nat (date_now e) @ ''-'' @ originalname f;
                  uploadParams = Upload (SPACES_BUCKET e) (''uploads/'' @ uploadFileName)
                                   (file_size f) (mimetype f) ''public-read'';
                  st1 = st\<lparr>s3_log := s3_log st @ [uploadParams]\<rparr>
              in case s3_upload e uploadParams of
                   Inl err \<Rightarrow> (Inl err, st1)
                 | Inr location \<Rightarrow> (Inr (Some location, Some uploadFileName), st1)))
      in case r of
           Inl err \<Rightarrow> ((500, ErrorBody ''Failed to create todo''), st1)
         | Inr (fileUrl, fileName) \<Rightarrow>
             (case db_insert (current_timestamp e) (body_title req) (body_description req)
                     fileUrl fileName st1 of
                (Inl err, st2) \<Rightarrow> ((500, ErrorBody ''Failed to create todo''), st2)
              | (Inr row, st2) \<Rightarrow> ((201, Row row), st2)))"

section \<open>Sequences of requests and the invariant of the data model\<close>

text \<open>The table right after \<^verbatim>\<open>initDB\<close> on a new database, and no call to Spaces yet.\<close>

definition empty_state :: state where
  "empty_state = \<lparr>todos = [], todos_id_seq = 0, s3_log = []\<rparr>"

text \<open>Create requests served one after the other, each with its own environment.\<close>

fun post_all :: "(env \<times> create_req) list \<Rightarrow> state \<Rightarrow> response list \<times> state" where
  "post_all [] st = ([], st)"
| "post_all (er # ers) st =
     (let (resp, st1) = post_todos_route (fst er) (snd er) st;
          (resps, st2) = post_all ers st1
      in (resp # resps, st2))"

text \<open>In every stored row the two attachment columns are both null or both set.\<close>

definition files_paired :: "state \<Rightarrow> bool" where
  "files_paired st = list_all (\<lambda>r. (file_url r = None) = (file_name r = None)) (todos st)"

text \<open>No stored row has the empty title.\<close>

definition titles_nonempty :: "state \<Rightarrow> bool" where
  "titles_nonempty st = list_all (\<lambda>r. title r \<noteq> []) (todos st)"

section \<open>Sample environments, requests and states\<close>

text \<open>Spaces accepts every call and reports the object under the endpoint of the bucket.\<close>

definition env_up :: env where
  "env_up =
     \<lparr>date_now = 1700000000000, current_timestamp = 50,
      SPACES_BUCKET = Some ''demo'', DO_SPACES_BUCKET = None,
      s3_upload = (\<lambda>c. case c of
                          Upload b k n t a \<Rightarrow> Inr (''https://demo.sgp1.digitaloceanspaces.com/'' @ k)
                        | DeleteObject b k \<Rightarrow> Inl (Error ''not an upload'')),
      s3_deleteObject = (\<lambda>c. None)\<rparr>"

text \<open>Spaces rejects every call.\<close>

definition env_down :: env where
  "env_down =
     \<lparr>date_now = 1700000000000, current_timestamp = 50,
      SPACES_BUCKET = Some ''demo'', DO_SPACES_BUCKET = None,
      s3_upload = (\<lambda>c. Inl (Error ''connect ECONNREFUSED'')),
      s3_deleteObject = (\<lambda>c. Some (Error ''connect ECONNREFUSED''))\<rparr>"

definition png_file :: multer_file where
  "png_file = \<lparr>originalname = ''a.png'', mimetype = ''image/png'', file_size = 10\<rparr>"

definition big_png_file :: multer_file where
  "big_png_file = \<lparr>originalname = ''a.png'', mimetype = ''image/png'', file_size = 5242881\<rparr>"

definition exe_file :: multer_file where
  "exe_file = \<lparr>originalname = ''a.exe'', mimetype = ''application/x-msdownload'', file_size = 10\<rparr>"

definition milk :: todo where
  "milk =
     \<lparr>todo_id = 1, title = ''Buy milk'', description = Some ''2%'', completed = Some True,
      file_url = Some ''https://demo.sgp1.digitaloceanspaces.com/uploads/1699999999999-a.png'',
      file_name = Some ''a.png'', created_at = 10, updated_at = 10\<rparr>"

definition bread :: todo where
  "bread =
     \<lparr>todo_id = 2, title = ''Buy bread'', description = None, completed = Some False,
      file_url = None, file_name = None, created_at = 20, updated_at = 20\<rparr>"

text \<open>A title of 256 characters.\<close>

definition long_title :: string where
  "long_title = replicate 256 CHR ''a''"

definition two_todos :: state where
  "two_todos = \<lparr>todos = [milk, bread], todos_id_seq = 2, s3_log = []\<rparr>"

section \<open>Evaluation of the model\<close>

text \<open>The definitions a concrete request is evaluated with.\<close>

lemmas string_defs = allowedTypes_test_def fileFilter_def toLowerCase_def lower_char_def extname_def
  basename_part_def digit_char_def string_of_nat.simps pop_def slice_last2_def truthy_def
lemmas handler_defs = post_todos_route_def upload_single_def error_middleware_def error_message_def
  post_todos_def assign_const_def db_insert_def db_update_def db_delete_def db_select_by_id_def
  db_select_all_def put_todo_def delete_todo_def get_todos_def fileSize_limit_def set_columns_def
  int4_def fits_def
lemmas sample_defs = env_up_def env_down_def png_file_def big_png_file_def exe_file_def milk_def
  bread_def two_todos_def empty_state_def long_title_def

section \<open>Facts about the statements\<close>

lemma db_insert_failed:
  "db_insert ts t d fu fn st = (Inl err, st1) \<Longrightarrow>
   todos st1 = todos st \<and> s3_log st1 = s3_log st"
  by (auto simp: db_insert_def Let_def split: if_splits option.splits)

lemma db_insert_stored:
  "db_insert ts t d fu fn st = (Inr row, st1) \<Longrightarrow>
   todos st1 = todos st @ [row] \<and> s3_log st1 = s3_log st
   \<and> t = Some (title row) \<and> file_url row = fu \<and> file_name row = fn"
  by (auto simp: db_insert_def Let_def split: if_splits option.splits)

lemma db_insert_row:
  "length tt \<le> 255 \<Longrightarrow> fits 500 fu \<Longrightarrow> fits 255 fn \<Longrightarrow> todos_id_seq st < 2147483647 \<Longrightarrow>
   db_insert ts (Some tt) d fu fn st
     = (Inr \<lparr>todo_id = todos_id_seq st + 1, title = tt, description = d, completed = Some False,
             file_url = fu, file_name = fn, created_at = ts, updated_at = ts\<rparr>,
        st\<lparr>todos_id_seq := todos_id_seq st + 1,
           todos := todos st @ [\<lparr>todo_id = todos_id_seq st + 1, title = tt, description = d,
                                completed = Some False, file_url = fu, file_name = fn,
                                created_at = ts, updated_at = ts\<rparr>]\<rparr>)"
  by (simp add: db_insert_def fits_def Let_def)

lemma db_update_out_of_range:
  "\<not> int4 i \<Longrightarrow>
   db_update ts t d c i st = Inl (DatabaseError ''value is out of range for type integer'')"
  by (simp add: db_update_def)

lemma db_update_too_long:
  "int4 i \<Longrightarrow> \<not> fits 255 t \<Longrightarrow>
   db_update ts t d c i st = Inl (DatabaseError ''value too long for type character varying'')"
  by (simp add: db_update_def)

lemma db_update_unknown:
  "int4 i \<Longrightarrow> fits 255 t \<Longrightarrow> i \<notin> todo_id ` set (todos st) \<Longrightarrow>
   db_update ts t d c i st = Inr ([], st)"
  by (auto simp: db_update_def list_ex_iff)

lemma db_update_null_title:
  "int4 i \<Longrightarrow> i \<in> todo_id ` set (todos st) \<Longrightarrow>
   db_update ts None d c i st
     = Inl (DatabaseError ''null value in column title violates not-null constraint'')"
  by (auto simp: db_update_def fits_def list_ex_iff)

lemma db_update_known:
  "int4 i \<Longrightarrow> length tt \<le> 255 \<Longrightarrow> i \<in> todo_id ` set (todos st) \<Longrightarrow>
   db_update ts (Some tt) d c i st
     = Inr (filter (\<lambda>r. todo_id r = i)
              (map (\<lambda>r. if todo_id r = i then set_columns ts tt d c r else r) (todos st)),
            st\<lparr>todos := map (\<lambda>r. if todo_id r = i then set_columns ts tt d c r else r) (todos st)\<rparr>)"
  by (auto simp: db_update_def fits_def list_ex_iff Let_def)

lemma todo_id_set_columns [simp]: "todo_id (set_columns ts tt d c r) = todo_id r"
  by (simp add: set_columns_def)

lemma updated_rows_nonempty:
  "i \<in> todo_id ` set rows \<Longrightarrow>
   filter (\<lambda>r. todo_id r = i) (map (\<lambda>r. if todo_id r = i then set_columns ts tt d c r else r) rows) \<noteq> []"
  by (induction rows) auto



section \<open>Update\<close>

lemma put_todo_out_of_range:
  "\<not> int4 i \<Longrightarrow> put_todo e i b st = ((500, ErrorBody ''Failed to update todo''), st)"
  by (simp add: put_todo_def db_update_out_of_range)

lemma put_todo_too_long:
  "\<not> fits 255 (put_title b) \<Longrightarrow> put_todo e i b st = ((500, ErrorBody ''Failed to update todo''), st)"
  by (cases "int4 i") (simp_all add: put_todo_def db_update_out_of_range db_update_too_long)

lemma put_todo_unknown:
  "int4 i \<Longrightarrow> fits 255 (put_title b) \<Longrightarrow> i \<notin> todo_id ` set (todos st) \<Longrightarrow>
   put_todo e i b st = ((404, ErrorBody ''Todo not found''), st)"
  by (simp add: put_todo_def db_update_unknown)

lemma put_todo_null_title:
  "int4 i \<Longrightarrow> i \<in> todo_id ` set (todos st) \<Longrightarrow> put_title b = None \<Longrightarrow>
   put_todo e i b st = ((500, ErrorBody ''Failed to update todo''), st)"
  by (simp add: put_todo_def db_update_null_title)

lemma put_todo_known:
  assumes "int4 i" and "i \<in> todo_id ` set (todos st)"
    and "put_title b = Some tt" and "length tt \<le> 255"
  shows "put_todo e i b st =
     ((200, Row (hd (filter (\<lambda>r. todo_id r = i)
                   (map (\<lambda>r. if todo_id r = i
                              then set_columns (current_timestamp e) tt (put_description b) (put_completed b) r
                              else r) (todos st))))),
      st\<lparr>todos := map (\<lambda>r. if todo_id r = i
                              then set_columns (current_timestamp e) tt (put_description b) (put_completed b) r
                              else r) (todos st)\<rparr>)"
proof -
  let ?rows = "filter (\<lambda>r. todo_id r = i)
                   (map (\<lambda>r. if todo_id r = i
                              then set_columns (current_timestamp e) tt (put_description b) (put_completed b) r
                              else r) (todos st))"
  from assms(2) have "?rows \<noteq> []"
    by (rule updated_rows_nonempty)
  then obtain x xs where "?rows = x # xs"
    by (cases ?rows) auto
  with assms show ?thesis
    by (simp add: put_todo_def db_update_known)
qed









section \<open>List\<close>

lemma post_todos_route_rows:
  "todos (snd (post_todos_route e req st))
     = (if fst (fst (post_todos_route e req st)) = 201
        then todos st @ [case snd (fst (post_todos_route e req st)) of Row r \<Rightarrow> r]
        else todos st)"
  by (cases "body_title req")
     (simp_all add: post_todos_route_def upload_single_def error_middleware_def error_message_def
        post_todos_def assign_const_def db_insert_def Let_def
        split: option.splits sum.splits js_error.splits)

lemma post_all_rows:
  "post_all ers st = (resps, st') \<Longrightarrow>
   length resps = length ers \<and>
   length (todos st') = length (todos st) + length (filter (\<lambda>r. fst r = 201) resps)"
proof (induction ers arbitrary: st resps st')
  case Nil
  then show ?case by simp
next
  case (Cons er ers)
  obtain resp st1 where step: "post_todos_route (fst er) (snd er) st = (resp, st1)"
    by (cases "post_todos_route (fst er) (snd er) st")
  obtain resps2 st2 where rest: "post_all ers st1 = (resps2, st2)"
    by (cases "post_all ers st1")
  from Cons.prems step rest have eq: "resps = resp # resps2" "st' = st2"
    by simp_all
  from Cons.IH [OF rest] have ih: "length resps2 = length ers"
    "length (todos st2) = length (todos st1) + length (filter (\<lambda>r. fst r = 201) resps2)"
    by simp_all
  from post_todos_route_rows [of "fst er" "snd er" st] step
  have "length (todos st1) = length (todos st) + (if fst resp = 201 then 1 else 0)"
    by simp
  with ih eq show ?case by simp
qed

text \<open>
  Claim C9. The list request answers 200 with all stored rows (the same rows with the same
  multiplicities, so as many as are stored), newest first by created_at, and leaves the
  state alone; on an empty table the answer is the empty array. After create requests
  served from the empty table that were all answered 201, the list has as many items as
  there were requests.
\<close>

theorem C9_get_todos:
  "(\<exists>xs. get_todos st = ((200, Rows xs), st)
        \<and> mset xs = mset (todos st) \<and> length xs = length (todos st)
        \<and> sorted_wrt (\<lambda>a b. created_at b \<le> created_at a) xs
        \<and> (todos st = [] \<longrightarrow> xs = []))
   \<and> (post_all ers empty_state = (resps, st') \<and> list_all (\<lambda>r. fst r = 201) resps \<longrightarrow>
        (\<exists>xs. get_todos st' = ((200, Rows xs), st') \<and> length xs = length ers))"
proof (intro conjI impI)
  have "sorted (map (\<lambda>r. - int (created_at r)) (db_select_all st))"
    unfolding db_select_all_def by (rule sorted_sort_key)
  then have "sorted_wrt (\<lambda>a b. created_at b \<le> created_at a) (db_select_all st)"
    by (simp add: sorted_map)
  moreover have "mset (db_select_all st) = mset (todos st)"
    "length (db_select_all st) = length (todos st)"
    "todos st = [] \<longrightarrow> db_select_all st = []"
    by (simp_all add: db_select_all_def)
  ultimately show "\<exists>xs. get_todos st = ((200, Rows xs), st)
        \<and> mset xs = mset (todos st) \<and> length xs = length (todos st)
        \<and> sorted_wrt (\<lambda>a b. created_at b \<le> created_at a) xs
        \<and> (todos st = [] \<longrightarrow> xs = [])"
    by (simp add: get_todos_def)
next
  assume a: "post_all ers empty_state = (resps, st') \<and> list_all (\<lambda>r. fst r = 201) resps"
  then have all: "filter (\<lambda>r. fst r = 201) resps = resps"
    by (simp add: list_all_iff)
  from a post_all_rows [of ers empty_state resps st']
  have "length resps = length ers"
    "length (todos st') = length (todos empty_state) + length (filter (\<lambda>r. fst r = 201) resps)"
    by simp_all
  with all have "length (todos st') = length ers"
    by (simp add: empty_state_def)
  then show "\<exists>xs. get_todos st' = ((200, Rows xs), st') \<and> length xs = length ers"
    by (simp add: get_todos_def db_select_all_def)
qed

section \<open>The invariant\<close>

lemma files_paired_post_todos:
  "files_paired st \<Longrightarrow> files_paired (snd (post_todos e req st))"
  by (cases "body_title req")
     (simp_all add: files_paired_def post_todos_def assign_const_def db_insert_def
        Let_def split: option.splits sum.splits)

lemma files_paired_post_todos_route:
  "files_paired st \<Longrightarrow> files_paired (snd (post_todos_route e req st))"
  by (simp add: post_todos_route_def files_paired_post_todos split: sum.splits)

lemma files_paired_updated:
  "list_all (\<lambda>r. (file_url r = None) = (file_name r = None)) rows \<Longrightarrow>
   list_all (\<lambda>r. (file_url r = None) = (file_name r = None))
     (map (\<lambda>r. if todo_id r = i then set_columns ts tt d c r else r) rows)"
  by (induction rows) (simp_all add: set_columns_def)

lemma files_paired_put_todo:
  assumes "files_paired st"
  shows "files_paired (snd (put_todo e i b st))"
proof (cases "int4 i \<and> fits 255 (put_title b)")
  case False
  then have "put_todo e i b st = ((500, ErrorBody ''Failed to update todo''), st)"
    using put_todo_out_of_range put_todo_too_long by blast
  with assms show ?thesis by simp
next
  case ok: True
  show ?thesis
  proof (cases "i \<in> todo_id ` set (todos st)")
    case False
    with ok assms show ?thesis by (simp add: put_todo_unknown)
  next
    case True
    show ?thesis
    proof (cases "put_title b")
      case None
      with ok True assms show ?thesis by (simp add: put_todo_null_title)
    next
      case (Some tt)
      with ok have len: "length tt \<le> 255"
        by (simp add: fits_def)
      from ok have range: "int4 i"
        by simp
      from assms have "list_all (\<lambda>r. (file_url r = None) = (file_name r = None))
         (map (\<lambda>r. if todo_id r = i
                    then set_columns (current_timestamp e) tt (put_description b) (put_completed b) r
                    else r) (todos st))"
        unfolding files_paired_def by (rule files_paired_updated)
      then show ?thesis
        by (simp add: put_todo_known [OF range True Some len] files_paired_def)
    qed
  qed
qed

lemma list_all_filter: "list_all P xs \<Longrightarrow> list_all P (filter Q xs)"
  by (induction xs) simp_all

lemma files_paired_db_delete:
  "files_paired st \<Longrightarrow> db_delete i st = Inr st2 \<Longrightarrow> files_paired st2"
  by (auto simp: files_paired_def db_delete_def list_all_filter split: if_splits)

lemma files_paired_log [simp]: "files_paired (st\<lparr>s3_log := l\<rparr>) = files_paired st"
  by (simp add: files_paired_def)

lemma files_paired_delete_todo:
  "files_paired st \<Longrightarrow> files_paired (snd (delete_todo e i st))"
  by (auto simp: delete_todo_def Let_def db_select_by_id_def
        split: sum.splits list.splits option.splits if_splits
        intro: files_paired_db_delete [where st = "st\<lparr>s3_log := l\<rparr>" for l, simplified]
               files_paired_db_delete)

lemma files_paired_post_todos_p0:
  "files_paired st \<Longrightarrow> files_paired (snd (post_todos_p0 cfg e req st))"
  by (cases "body_title req")
     (simp_all add: files_paired_def post_todos_p0_def db_insert_def
        Let_def truthy_def split: option.splits sum.splits)

lemma files_paired_post_todos_p1:
  "files_paired st \<Longrightarrow> files_paired (snd (post_todos_p1 e req st))"
  by (cases "body_title req")
     (simp_all add: files_paired_def post_todos_p1_def db_insert_def
        Let_def split: option.splits sum.splits)

lemma files_paired_delete_todo_p0:
  "files_paired st \<Longrightarrow> files_paired (snd (delete_todo_p0 cfg e i st))"
  by (auto simp: delete_todo_p0_def Let_def db_select_by_id_def
        split: sum.splits list.splits option.splits if_splits
        intro: files_paired_db_delete [where st = "st\<lparr>s3_log := l\<rparr>" for l, simplified]
               files_paired_db_delete)

lemma titles_nonempty_db_delete:
  "titles_nonempty st \<Longrightarrow> db_delete i st = Inr st2 \<Longrightarrow> titles_nonempty st2"
  by (auto simp: titles_nonempty_def db_delete_def list_all_filter split: if_splits)

lemma titles_nonempty_log [simp]: "titles_nonempty (st\<lparr>s3_log := l\<rparr>) = titles_nonempty st"
  by (simp add: titles_nonempty_def)

lemma titles_nonempty_delete_todo:
  "titles_nonempty st \<Longrightarrow> titles_nonempty (snd (delete_todo e i st))"
  by (auto simp: delete_todo_def Let_def db_select_by_id_def
        split: sum.splits list.splits option.splits if_splits
        intro: titles_nonempty_db_delete [where st = "st\<lparr>s3_log := l\<rparr>" for l, simplified]
               titles_nonempty_db_delete)

lemma titles_nonempty_delete_todo_p0:
  "titles_nonempty st \<Longrightarrow> titles_nonempty (snd (delete_todo_p0 cfg e i st))"
  by (auto simp: delete_todo_p0_def Let_def db_select_by_id_def
        split: sum.splits list.splits option.splits if_splits
        intro: titles_nonempty_db_delete [where st = "st\<lparr>s3_log := l\<rparr>" for l, simplified]
               titles_nonempty_db_delete)

lemma titles_nonempty_post_todos_p0:
  "titles_nonempty st \<Longrightarrow> titles_nonempty (snd (post_todos_p0 cfg e req st))"
  by (cases "body_title req")
     (simp_all add: titles_nonempty_def post_todos_p0_def db_insert_def
        Let_def truthy_def split: option.splits sum.splits)

text \<open>
  Claim C6 as stated fails: the sample table has paired attachment columns and no empty
  title; an update of row 1 with the empty string as title answers 200 and stores the
  empty title.
\<close>

theorem C6_update_empty_title_counterexample:
  "files_paired two_todos \<and> titles_nonempty two_todos
   \<and> put_todo env_up 1 \<lparr>put_title = Some [], put_description = Some ''2%'', put_completed = Some True\<rparr> two_todos
       = ((200, Row (milk\<lparr>title := [], updated_at := 50\<rparr>)),
          two_todos\<lparr>todos := [milk\<lparr>title := [], updated_at := 50\<rparr>, bread]\<rparr>)
   \<and> \<not> titles_nonempty (two_todos\<lparr>todos := [milk\<lparr>title := [], updated_at := 50\<rparr>, bread]\<rparr>)"
  by (simp add: handler_defs sample_defs files_paired_def titles_nonempty_def)

text \<open>
  Claim C6, amended. Create, update and delete keep the attachment columns paired: in
  every stored row file_url and file_name are both null or both set. This holds for the
  handlers of server.js and for the create and delete handlers of the other copies. Delete
  keeps every title non-empty, and so does the create handler that checks the title. (The
  title column is never null: it is not nullable in the table.) Update stores the title of
  the request as it is, the empty string included.
\<close>

theorem C6_invariant_preserved:
  "(files_paired st \<longrightarrow>
        files_paired (snd (post_todos_route e req st))
      \<and> files_paired (snd (put_todo e i b st))
      \<and> files_paired (snd (delete_todo e i st))
      \<and> files_paired (snd (post_todos_p0 cfg e req st))
      \<and> files_paired (snd (post_todos_p1 e req st))
      \<and> files_paired (snd (delete_todo_p0 cfg e i st)))
   \<and> (titles_nonempty st \<longrightarrow>
        titles_nonempty (snd (delete_todo e i st))
      \<and> titles_nonempty (snd (delete_todo_p0 cfg e i st))
      \<and> titles_nonempty (snd (post_todos_p0 cfg e req st)))"
  by (intro conjI impI)
     (erule files_paired_post_todos_route files_paired_put_todo files_paired_delete_todo
        files_paired_post_todos_p0 files_paired_post_todos_p1 files_paired_delete_todo_p0
        titles_nonempty_delete_todo titles_nonempty_delete_todo_p0 titles_nonempty_post_todos_p0)+

text \<open>Claim C9 at the empty table and after two create requests served from it.\<close>

theorem C9_get_todos_witness:
  "todos empty_state = []
   \<and> get_todos empty_state = ((200, Rows []), empty_state)
   \<and> post_all [(env_up, \<lparr>body_title = Some ''Buy milk'', body_description = Some ''2%'', req_file = None\<rparr>),
               (env_up\<lparr>current_timestamp := 60\<rparr>, \<lparr>body_title = Some ''Buy bread'', body_description = None, req_file = None\<rparr>)]
        empty_state
      = ([(201, Row \<lparr>todo_id = 1, title = ''Buy milk'', description = Some ''2%'', completed = Some False,
                       file_url = None, file_name = None, created_at = 50, updated_at = 50\<rparr>),
          (201, Row \<lparr>todo_id = 2, title = ''Buy bread'', description = None, completed = Some False,
                       file_url = None, file_name = None, created_at = 60, updated_at = 60\<rparr>)],
         \<lparr>todos = [\<lparr>todo_id = 1, title = ''Buy milk'', description = Some ''2%'', completed = Some False,
                       file_url = None, file_name = None, created_at = 50, updated_at = 50\<rparr>,
                   \<lparr>todo_id = 2, title = ''Buy bread'', description = None, completed = Some False,
                       file_url = None, file_name = None, created_at = 60, updated_at = 60\<rparr>],
          todos_id_seq = 2, s3_log = []\<rparr>)
   \<and> list_all (\<lambda>r::response. fst r = 201)
         [(201, Row \<lparr>todo_id = 1, title = ''Buy milk'', description = Some ''2%'', completed = Some False,
                       file_url = None, file_name = None, created_at = 50, updated_at = 50\<rparr>),
          (201, Row \<lparr>todo_id = 2, title = ''Buy bread'', description = None, completed = Some False,
                       file_url = None, file_name = None, created_at = 60, updated_at = 60\<rparr>)]
   \<and> (\<exists>xs. get_todos \<lparr>todos = [\<lparr>todo_id = 1, title = ''Buy milk'', description = Some ''2%'', completed = Some False,
                       file_url = None, file_name = None, created_at = 50, updated_at = 50\<rparr>,
                   \<lparr>todo_id = 2, title = ''Buy bread'', description = None, completed = Some False,
                       file_url = None, file_name = None, created_at = 60, updated_at = 60\<rparr>],
          todos_id_seq = 2, s3_log = []\<rparr>
            = ((200, Rows xs),
               \<lparr>todos = [\<lparr>todo_id = 1, title = ''Buy milk'', description = Some ''2%'', completed = Some False,
                       file_url = None, file_name = None, created_at = 50, updated_at = 50\<rparr>,
                   \<lparr>todo_id = 2, title = ''Buy bread'', description = None, completed = Some False,
                       file_url = None, file_name = None, created_at = 60, updated_at = 60\<rparr>],
          todos_id_seq = 2, s3_log = []\<rparr>)
          \<and> length xs = 2)"
  (is "?empty \<and> ?list0 \<and> post_all ?ers empty_state = (?resps, ?st) \<and> ?created \<and> ?count")
proof -
  have e: ?empty
    by (simp add: empty_state_def)
  have p: "post_all ?ers empty_state = (?resps, ?st)"
    by (simp add: handler_defs sample_defs Let_def)
  have c: ?created
    by simp
  from C9_get_todos [of empty_state ?ers ?resps ?st] e have l0: ?list0
    by auto
  have len: "length ?ers = 2"
    by simp
  have "\<exists>xs. get_todos ?st = ((200, Rows xs), ?st) \<and> length xs = length ?ers"
    by (rule mp [OF conjunct2 [OF C9_get_todos [of empty_state ?ers ?resps ?st]] conjI [OF p c]])
  then have n: ?count
    unfolding len .
  from e l0 p c n show ?thesis by (intro conjI)
qed

text \<open>The amended claim C6 at the sample table.\<close>

theorem C6_invariant_preserved_witness:
  "files_paired two_todos \<and> titles_nonempty two_todos
   \<and> files_paired (snd (post_todos_route env_up \<lparr>body_title = Some ''Buy eggs'', body_description = None, req_file = None\<rparr> two_todos))
   \<and> files_paired (snd (put_todo env_up 1 \<lparr>put_title = Some ''Buy oat milk'', put_description = None, put_completed = None\<rparr> two_todos))
   \<and> files_paired (snd (delete_todo env_up 1 two_todos))
   \<and> titles_nonempty (snd (delete_todo env_up 1 two_todos))"
proof -
  have h: "files_paired two_todos" "titles_nonempty two_todos"
    by (simp_all add: files_paired_def titles_nonempty_def sample_defs)
  from h C6_invariant_preserved [of two_todos env_up
      "\<lparr>body_title = Some ''Buy eggs'', body_description = None, req_file = None\<rparr>" 1
      "\<lparr>put_title = Some ''Buy oat milk'', put_description = None, put_completed = None\<rparr>"]
  show ?thesis by simp
qed

section \<open>Upload middleware\<close>

text \<open>
  Claim C5 as stated fails: a file whose extension and MIME type are not allowed is turned
  away with 500, not 400. The filter passes a plain \<^verbatim>\<open>Error\<close> to the error middleware, which
  answers 400 only for a \<^verbatim>\<open>MulterError\<close> with code \<^verbatim>\<open>LIMIT_FILE_SIZE\<close>.
\<close>

theorem C5_disallowed_type_counterexample:
  "\<not> fileFilter exe_file
   \<and> post_todos_route env_up \<lparr>body_title = Some ''Run me'', body_description = None, req_file = Some exe_file\<rparr> empty_state
       = ((500, ErrorBody ''Only images, PDFs, and text files are allowed''), empty_state)"
  by (simp add: string_defs handler_defs sample_defs)

text \<open>
  Claim C5, amended. A request whose file the filter refuses is answered 500 with the
  filter's message; a request whose file the filter accepts and that is longer than the
  limit of 5 MB is answered 400. In both cases the state is unchanged: the create handler
  has not run, nothing was stored and no call to Spaces was made.
\<close>

theorem C5_upload_rejected:
  assumes "req_file req = Some f"
  shows "(\<not> fileFilter f \<longrightarrow>
           post_todos_route e req st
             = ((500, ErrorBody ''Only images, PDFs, and text files are allowed''), st))
       \<and> (fileFilter f \<and> fileSize_limit < file_size f \<longrightarrow>
           post_todos_route e req st = ((400, ErrorBody ''File too large''), st))"
  using assms
  by (simp add: post_todos_route_def upload_single_def error_middleware_def error_message_def)

text \<open>The amended claim C5 at a refused file and at an accepted file that is too long.\<close>

theorem C5_upload_rejected_witness:
  "\<not> fileFilter exe_file
   \<and> post_todos_route env_up \<lparr>body_title = Some ''Run me'', body_description = None, req_file = Some exe_file\<rparr> two_todos
       = ((500, ErrorBody ''Only images, PDFs, and text files are allowed''), two_todos)
   \<and> fileFilter big_png_file \<and> fileSize_limit < file_size big_png_file
   \<and> post_todos_route env_up \<lparr>body_title = Some ''Poster'', body_description = None, req_file = Some big_png_file\<rparr> two_todos
       = ((400, ErrorBody ''File too large''), two_todos)"
proof -
  have a: "\<not> fileFilter exe_file"
    by (simp add: string_defs sample_defs)
  have b: "fileFilter big_png_file \<and> fileSize_limit < file_size big_png_file"
    by (simp add: string_defs sample_defs fileSize_limit_def)
  from a C5_upload_rejected [of "\<lparr>body_title = Some ''Run me'', body_description = None, req_file = Some exe_file\<rparr>" exe_file env_up two_todos]
  have c: "post_todos_route env_up \<lparr>body_title = Some ''Run me'', body_description = None, req_file = Some exe_file\<rparr> two_todos
       = ((500, ErrorBody ''Only images, PDFs, and text files are allowed''), two_todos)"
    by simp
  from b C5_upload_rejected [of "\<lparr>body_title = Some ''Poster'', body_description = None, req_file = Some big_png_file\<rparr>" big_png_file env_up two_todos]
  have d: "post_todos_route env_up \<lparr>body_title = Some ''Poster'', body_description = None, req_file = Some big_png_file\<rparr> two_todos
       = ((400, ErrorBody ''File too large''), two_todos)"
    by simp
  from a b c d show ?thesis by (intro conjI) simp_all
qed

section \<open>Create and delete\<close>

lemmas copy_defs = post_todos_p0_def post_todos_p1_def delete_todo_p0_def

text \<open>
  In server.js every create request that carries a file is answered 500 after one upload
  call, whatever that call returns, and nothing is stored.
\<close>

lemma post_todos_with_file:
  "req_file req = Some f \<Longrightarrow>
   post_todos e req st
     = ((500, ErrorBody ''Failed to create todo''),
        st\<lparr>s3_log := s3_log st @
             [Upload (SPACES_BUCKET e) (''uploads/'' @ string_of_nat (date_now e) @ ''-'' @ originalname f)
                (file_size f) (mimetype f) ''public-read'']\<rparr>)"
  by (simp add: post_todos_def assign_const_def Let_def split: sum.splits)

text \<open>What the first unnamed copy does on the requests of claims C1 to C4.\<close>

lemma post_todos_p0_title_required:
  "dbConfigured cfg \<Longrightarrow> \<not> truthy (body_title req) \<Longrightarrow>
   post_todos_p0 cfg e req st = ((400, ErrorBody ''Title is required''), st)"
  by (simp add: post_todos_p0_def)

lemma post_todos_p0_upload_ok:
  assumes "dbConfigured cfg" and "spacesConfigured cfg"
    and "body_title req = Some tt" and "tt \<noteq> []" and "req_file req = Some f"
    and "s3_upload e (Upload (SPACES_BUCKET e)
            (''uploads/'' @ string_of_nat (date_now e) @ ''-'' @ originalname f)
            (file_size f) (mimetype f) ''public-read'') = Inr location"
    and "length tt \<le> 255" and "length location \<le> 500" and "length (originalname f) \<le> 255"
    and "todos_id_seq st < 2147483647"
  shows "\<exists>row st'. post_todos_p0 cfg e req st = ((201, Row row), st')
           \<and> file_url row = Some location \<and> file_name row = Some (originalname f)
           \<and> title row = tt \<and> todos st' = todos st @ [row]"
  using assms by (simp add: post_todos_p0_def truthy_def db_insert_row fits_def Let_def)

lemma post_todos_p0_upload_fails:
  assumes "dbConfigured cfg" and "spacesConfigured cfg"
    and "body_title req = Some tt" and "tt \<noteq> []" and "req_file req = Some f"
    and "s3_upload e (Upload (SPACES_BUCKET e)
            (''uploads/'' @ string_of_nat (date_now e) @ ''-'' @ originalname f)
            (file_size f) (mimetype f) ''public-read'') = Inl err"
    and "length tt \<le> 255" and "todos_id_seq st < 2147483647"
  shows "\<exists>row st'. post_todos_p0 cfg e req st = ((201, Row row), st')
           \<and> file_url row = None \<and> file_name row = None
           \<and> title row = tt \<and> todos st' = todos st @ [row]"
  using assms by (simp add: post_todos_p0_def truthy_def db_insert_row fits_def Let_def)

lemma post_todos_p1_stores_key:
  assumes "body_title req = Some tt" and "req_file req = Some f"
    and "s3_upload e (Upload (SPACES_BUCKET e)
            (''uploads/'' @ string_of_nat (date_now e) @ ''-'' @ originalname f)
            (file_size f) (mimetype f) ''public-read'') = Inr location"
    and "length tt \<le> 255" and "length location \<le> 500"
    and "length (string_of_nat (date_now e) @ ''-'' @ originalname f) \<le> 255"
    and "todos_id_seq st < 2147483647"
  shows "\<exists>row st'. post_todos_p1 e req st = ((201, Row row), st')
           \<and> file_url row = Some location
           \<and> file_name row = Some (string_of_nat (date_now e) @ ''-'' @ originalname f)"
  using assms by (simp add: post_todos_p1_def db_insert_row fits_def Let_def)

lemma delete_todo_rejected:
  assumes "db_select_by_id i st = Inr (r # rs)" and "truthy (file_url r)"
    and "s3_deleteObject e (DeleteObject (SPACES_BUCKET e)
            (''uploads/'' @ pop (split_on CHR ''/'' (the (file_url r))))) = Some err"
  shows "delete_todo e i st
     = ((500, ErrorBody ''Failed to delete todo''),
        st\<lparr>s3_log := s3_log st @
             [DeleteObject (SPACES_BUCKET e) (''uploads/'' @ pop (split_on CHR ''/'' (the (file_url r))))]\<rparr>)"
  using assms by (simp add: delete_todo_def Let_def)

lemma delete_todo_p0_swallows:
  assumes "dbConfigured cfg" and "spacesConfigured cfg"
    and "db_select_by_id i st = Inr (r # rs)" and "truthy (file_url r)"
  shows "delete_todo_p0 cfg e i st
     = ((200, Message ''Todo deleted successfully''),
        st\<lparr>todos := filter (\<lambda>x. todo_id x \<noteq> i) (todos st),
           s3_log := s3_log st @
             [DeleteObject (DO_SPACES_BUCKET e)
                (join ''/'' (slice_last2 (split_on CHR ''/'' (the (file_url r)))))]\<rparr>)"
proof -
  from assms(3) have "int4 i"
    by (simp add: db_select_by_id_def split: if_splits)
  with assms show ?thesis
    by (simp add: delete_todo_p0_def db_delete_def Let_def split: option.splits)
qed

text \<open>
  Claim C1 (a create request with a title and a file whose upload succeeds is answered 201
  with a row whose file_url is the uploaded object's URL and whose file_name is the
  original file name) at one such request. The handler of server.js uploads the file and
  then answers 500 without storing a row, because of the assignment to the constant. On the
  same request the first unnamed copy answers 201 with the URL and the original name, and
  the second unnamed copy answers 201 with the URL and the key's file name.
\<close>

theorem C1_create_with_file:
  "post_todos_route env_up
      \<lparr>body_title = Some ''Buy milk'', body_description = Some ''2%'', req_file = Some png_file\<rparr>
      empty_state
    = ((500, ErrorBody ''Failed to create todo''),
       \<lparr>todos = [], todos_id_seq = 0,
        s3_log = [Upload (Some ''demo'') ''uploads/1700000000000-a.png'' 10 ''image/png'' ''public-read'']\<rparr>)
   \<and> post_todos_p0 \<lparr>dbConfigured = True, spacesConfigured = True\<rparr> env_up
      \<lparr>body_title = Some ''Buy milk'', body_description = Some ''2%'', req_file = Some png_file\<rparr>
      empty_state
    = ((201, Row \<lparr>todo_id = 1, title = ''Buy milk'', description = Some ''2%'', completed = Some False,
                  file_url = Some ''https://demo.sgp1.digitaloceanspaces.com/uploads/1700000000000-a.png'',
                  file_name = Some ''a.png'', created_at = 50, updated_at = 50\<rparr>),
       \<lparr>todos = [\<lparr>todo_id = 1, title = ''Buy milk'', description = Some ''2%'', completed = Some False,
                  file_url = Some ''https://demo.sgp1.digitaloceanspaces.com/uploads/1700000000000-a.png'',
                  file_name = Some ''a.png'', created_at = 50, updated_at = 50\<rparr>],
        todos_id_seq = 1,
        s3_log = [Upload (Some ''demo'') ''uploads/1700000000000-a.png'' 10 ''image/png'' ''public-read'']\<rparr>)
   \<and> post_todos_p1 env_up
      \<lparr>body_title = Some ''Buy milk'', body_description = Some ''2%'', req_file = Some png_file\<rparr>
      empty_state
    = ((201, Row \<lparr>todo_id = 1, title = ''Buy milk'', description = Some ''2%'', completed = Some False,
                  file_url = Some ''https://demo.sgp1.digitaloceanspaces.com/uploads/1700000000000-a.png'',
                  file_name = Some ''1700000000000-a.png'', created_at = 50, updated_at = 50\<rparr>),
       \<lparr>todos = [\<lparr>todo_id = 1, title = ''Buy milk'', description = Some ''2%'', completed = Some False,
                  file_url = Some ''https://demo.sgp1.digitaloceanspaces.com/uploads/1700000000000-a.png'',
                  file_name = Some ''1700000000000-a.png'', created_at = 50, updated_at = 50\<rparr>],
        todos_id_seq = 1,
        s3_log = [Upload (Some ''demo'') ''uploads/1700000000000-a.png'' 10 ''image/png'' ''public-read'']\<rparr>)"
  by (simp add: string_defs handler_defs copy_defs sample_defs Let_def)

text \<open>
  Claim C2 (a create request with an empty or missing title is answered 400 before any side
  effect) at three such requests. The handler of server.js has no title check: the empty
  title is stored and answered 201; a missing title with a file is answered 500 after the
  upload was made; a missing title without a file is answered 500 by the failed statement.
  The first unnamed copy answers 400 and leaves the state unchanged.
\<close>

theorem C2_create_without_title:
  "post_todos_route env_up \<lparr>body_title = Some [], body_description = Some ''2%'', req_file = None\<rparr> empty_state
    = ((201, Row \<lparr>todo_id = 1, title = [], description = Some ''2%'', completed = Some False,
                  file_url = None, file_name = None, created_at = 50, updated_at = 50\<rparr>),
       \<lparr>todos = [\<lparr>todo_id = 1, title = [], description = Some ''2%'', completed = Some False,
                  file_url = None, file_name = None, created_at = 50, updated_at = 50\<rparr>],
        todos_id_seq = 1, s3_log = []\<rparr>)
   \<and> post_todos_route env_up \<lparr>body_title = None, body_description = Some ''2%'', req_file = Some png_file\<rparr> empty_state
    = ((500, ErrorBody ''Failed to create todo''),
       \<lparr>todos = [], todos_id_seq = 0,
        s3_log = [Upload (Some ''demo'') ''uploads/1700000000000-a.png'' 10 ''image/png'' ''public-read'']\<rparr>)
   \<and> post_todos_route env_up \<lparr>body_title = None, body_description = Some ''2%'', req_file = None\<rparr> empty_state
    = ((500, ErrorBody ''Failed to create todo''), \<lparr>todos = [], todos_id_seq = 1, s3_log = []\<rparr>)
   \<and> post_todos_p0 \<lparr>dbConfigured = True, spacesConfigured = True\<rparr> env_up
        \<lparr>body_title = Some [], body_description = Some ''2%'', req_file = None\<rparr> empty_state
    = ((400, ErrorBody ''Title is required''), empty_state)
   \<and> post_todos_p0 \<lparr>dbConfigured = True, spacesConfigured = True\<rparr> env_up
        \<lparr>body_title = None, body_description = Some ''2%'', req_file = Some png_file\<rparr> empty_state
    = ((400, ErrorBody ''Title is required''), empty_state)"
  by (simp add: string_defs handler_defs copy_defs sample_defs Let_def)

text \<open>
  Claim C3 (when the upload fails the create request is still answered 201, with a row
  stored whose attachment columns are null) at one such request. The handler of server.js
  answers 500 and stores no row; the first unnamed copy answers 201 with that row.
\<close>

theorem C3_create_upload_rejected:
  "post_todos_route env_down
      \<lparr>body_title = Some ''Buy milk'', body_description = Some ''2%'', req_file = Some png_file\<rparr>
      empty_state
    = ((500, ErrorBody ''Failed to create todo''),
       \<lparr>todos = [], todos_id_seq = 0,
        s3_log = [Upload (Some ''demo'') ''uploads/1700000000000-a.png'' 10 ''image/png'' ''public-read'']\<rparr>)
   \<and> post_todos_p0 \<lparr>dbConfigured = True, spacesConfigured = True\<rparr> env_down
      \<lparr>body_title = Some ''Buy milk'', body_description = Some ''2%'', req_file = Some png_file\<rparr>
      empty_state
    = ((201, Row \<lparr>todo_id = 1, title = ''Buy milk'', description = Some ''2%'', completed = Some False,
                  file_url = None, file_name = None, created_at = 50, updated_at = 50\<rparr>),
       \<lparr>todos = [\<lparr>todo_id = 1, title = ''Buy milk'', description = Some ''2%'', completed = Some False,
                  file_url = None, file_name = None, created_at = 50, updated_at = 50\<rparr>],
        todos_id_seq = 1,
        s3_log = [Upload (Some ''demo'') ''uploads/1700000000000-a.png'' 10 ''image/png'' ''public-read'']\<rparr>)"
  by (simp add: string_defs handler_defs copy_defs sample_defs Let_def)

text \<open>
  Claim C4 (a delete request on a row with an attachment makes one deletion call to
  Spaces, and when that call fails the row is removed all the same and the answer is 200)
  at the first sample row with Spaces rejecting the call. The handler of server.js makes
  the one call, answers 500 and keeps the row; the first unnamed copy makes the one call,
  removes the row and answers 200. With Spaces accepting the call, server.js removes the
  row and answers 200.
\<close>

theorem C4_delete_blob_rejected:
  "delete_todo env_down 1 two_todos
    = ((500, ErrorBody ''Failed to delete todo''),
       \<lparr>todos = [milk, bread], todos_id_seq = 2,
        s3_log = [DeleteObject (Some ''demo'') ''uploads/1699999999999-a.png'']\<rparr>)
   \<and> delete_todo_p0 \<lparr>dbConfigured = True, spacesConfigured = True\<rparr> env_down 1 two_todos
    = ((200, Message ''Todo deleted successfully''),
       \<lparr>todos = [bread], todos_id_seq = 2,
        s3_log = [DeleteObject None ''uploads/1699999999999-a.png'']\<rparr>)
   \<and> delete_todo env_up 1 two_todos
    = ((200, Message ''Todo deleted successfully''),
       \<lparr>todos = [bread], todos_id_seq = 2,
        s3_log = [DeleteObject (Some ''demo'') ''uploads/1699999999999-a.png'']\<rparr>)"
  by (simp add: string_defs handler_defs copy_defs sample_defs Let_def)

end
